theory Spec2Isabelle
  imports Main "HOL-Library.AList" "HOL-Library.Option_ord"
begin

section \<open>Python values\<close>

text \<open>
  Webhook payloads, provider responses and JSON columns are untyped Python values
  (the result of parsing JSON): \<open>None\<close>, booleans, integers, strings, lists and
  dictionaries. A dictionary is an association list; a key is looked up with
  \<open>map_of\<close>. JSON numbers with a fraction are not represented.
\<close>

datatype json =
    JNull
  | JBool bool
  | JInt int
  | JStr string
  | JArr "json list"
  | JObj "(string \<times> json) list"

text \<open>
  The exceptions the modelled code can raise. \<open>ValueError\<close> carries the message the
  program gives it; the others are raised by the interpreter or the standard library.
\<close>

datatype exn =
    ValueError string
  | AttributeError
  | TypeError
  | KeyError
  | IndexError
  | UnboundLocalError
  | OverflowError
  | ProgrammingError
  | ExternalError string

text \<open>
  \<open>str(e)\<close>: the message of a \<open>ValueError\<close> is the one the program wrote, the message
  of an error of an external library is the library's; the wording the interpreter gives
  its own exceptions is not modelled and is represented by the exception's name.
\<close>

fun str_exn :: "exn \<Rightarrow> string" where
  "str_exn (ValueError m) = m"
| "str_exn (ExternalError m) = m"
| "str_exn AttributeError = ''AttributeError''"
| "str_exn TypeError = ''TypeError''"
| "str_exn KeyError = ''KeyError''"
| "str_exn IndexError = ''IndexError''"
| "str_exn UnboundLocalError = ''UnboundLocalError''"
| "str_exn OverflowError = ''OverflowError''"
| "str_exn ProgrammingError = ''ProgrammingError''"

text \<open>Sequencing of computations that may raise: the first exception ends the run.\<close>

definition bindE :: "exn + 'a \<Rightarrow> ('a \<Rightarrow> exn + 'b) \<Rightarrow> exn + 'b" where
  "bindE m f = (case m of Inl e \<Rightarrow> Inl e | Inr x \<Rightarrow> f x)"

text \<open>Truth value of a Python object, as \<open>if x:\<close> and \<open>not x\<close> test it.\<close>

fun truthy :: "json \<Rightarrow> bool" where
  "truthy JNull = False"
| "truthy (JBool b) = b"
| "truthy (JInt n) = (n \<noteq> 0)"
| "truthy (JStr s) = (s \<noteq> [])"
| "truthy (JArr xs) = (xs \<noteq> [])"
| "truthy (JObj kvs) = (kvs \<noteq> [])"

text \<open>\<open>x.get(k, default)\<close>: only a dictionary has the method.\<close>

fun py_get :: "json \<Rightarrow> string \<Rightarrow> json \<Rightarrow> exn + json" where
  "py_get (JObj kvs) k dflt = Inr (case map_of kvs k of None \<Rightarrow> dflt | Some v \<Rightarrow> v)"
| "py_get _ k dflt = Inl AttributeError"




text \<open>\<open>d.update(u)\<close> on dictionaries.\<close>

definition dict_update :: "(string \<times> json) list \<Rightarrow> (string \<times> json) list \<Rightarrow> (string \<times> json) list" where
  "dict_update d u = fold (\<lambda>(k, v) acc. AList.update k v acc) u d"

section \<open>Dates\<close>

text \<open>
  A \<open>datetime\<close> is the number of microseconds since 0001-01-01T00:00:00; Python
  represents the instants from there to 9999-12-31T23:59:59.999999 and raises
  \<open>OverflowError\<close> when an addition leaves that range. \<open>timedelta(days=d)\<close> raises
  \<open>OverflowError\<close> when the magnitude of \<open>d\<close> exceeds 999999999.
\<close>

type_synonym datetime = int

definition us_per_day :: int where
  "us_per_day = 86400000000"

definition datetime_max :: datetime where
  "datetime_max = 315537897599999999"

definition is_datetime :: "datetime \<Rightarrow> bool" where
  "is_datetime t = (0 \<le> t \<and> t \<le> datetime_max)"

definition timedelta_days :: "int \<Rightarrow> exn + int" where
  "timedelta_days d =
     (if d < - 999999999 \<or> 999999999 < d then Inl OverflowError else Inr (d * us_per_day))"

definition datetime_add :: "datetime \<Rightarrow> int \<Rightarrow> exn + datetime" where
  "datetime_add t delta =
     (if is_datetime (t + delta) then Inr (t + delta) else Inl OverflowError)"

definition add_days :: "datetime \<Rightarrow> int \<Rightarrow> exn + datetime" where
  "add_days t d =
     (case timedelta_days d of Inl e \<Rightarrow> Inl e | Inr delta \<Rightarrow> datetime_add t delta)"

subsection \<open>utils/helpers.py: calculate_period_end\<close>

definition calculate_period_end :: "datetime \<Rightarrow> string \<Rightarrow> int \<Rightarrow> exn + datetime" where
  "calculate_period_end start_date interval count =
     (if interval = ''month'' then add_days start_date (30 * count)
      else if interval = ''year'' then add_days start_date (365 * count)
      else add_days start_date 30)"

section \<open>The environment\<close>

text \<open>
  What an operation reads from outside the program: the clock (\<open>datetime.now()\<close> and the
  \<open>NOW()\<close> of the storage engine, one instant per operation), the random part of a
  generated identifier, and library functions whose values are not computed here:
  \<open>repr\<close> of a list or dictionary inside an f-string, \<open>int()\<close> of a string,
  \<open>datetime.fromtimestamp\<close>, \<open>datetime.isoformat\<close>, the engine's \<open>DATE_ADD\<close> by
  calendar months and its comparison of a text column with a number. Nothing is assumed
  about them.
\<close>

record env =
  now :: datetime
  uuid4_hex :: string
  repr :: "json \<Rightarrow> string"
  int_of_str :: "string \<Rightarrow> int option"
  fromtimestamp :: "int \<Rightarrow> exn + datetime"
  isoformat :: "datetime \<Rightarrow> string"
  date_add_months :: "datetime \<Rightarrow> int \<Rightarrow> datetime option"
  text_eq_number :: "string \<Rightarrow> int \<Rightarrow> bool"

subsection \<open>Decimal numerals and f-strings\<close>

function dec_nat :: "nat \<Rightarrow> string" where
  "dec_nat n =
     (if n < 10 then [char_of (48 + n)]
      else dec_nat (n div 10) @ [char_of (48 + n mod 10)])"
  by pat_completeness auto
termination
  by (relation "measure id") auto

definition dec_int :: "int \<Rightarrow> string" where
  "dec_int i = (if i < 0 then CHR ''-'' # dec_nat (nat (- i)) else dec_nat (nat i))"

text \<open>\<open>str(x)\<close>, which is what \<open>f"{x}"\<close> inserts.\<close>

fun py_str :: "env \<Rightarrow> json \<Rightarrow> string" where
  "py_str E (JStr s) = s"
| "py_str E JNull = ''None''"
| "py_str E (JBool b) = (if b then ''True'' else ''False'')"
| "py_str E (JInt n) = dec_int n"
| "py_str E v = repr E v"

text \<open>\<open>generate_id(prefix)\<close> of utils/helpers.py.\<close>

definition generate_id :: "env \<Rightarrow> string \<Rightarrow> string" where
  "generate_id E prefix = prefix @ uuid4_hex E"

section \<open>The store\<close>

text \<open>
  The tables of db.py, each a list of rows in insertion order. The storage engine is an
  external collaborator taken to be reliable: a statement that the driver accepts
  succeeds, \<open>fetchone\<close> returns the first matching row, an \<open>UPDATE\<close> rewrites every
  matching row, and the engine's column constraints, collations and locks are not
  modelled. A column that the code fills from a payload holds the Python value that was
  bound to it.
\<close>

record plan_row =
  p_id :: string
  p_amount :: int
  p_interval :: string
  p_interval_count :: int
  p_payment_gateways :: "json option"
  p_paypal_plan_id :: "string option"
  p_razorpay_plan_id :: "string option"

record subscription_row =
  s_id :: string
  s_user_id :: string
  s_plan_id :: string
  s_razorpay_subscription_id :: "string option"
  s_paypal_subscription_id :: "string option"
  s_status :: string
  s_current_period_start :: "datetime option"
  s_current_period_end :: "datetime option"
  s_app_id :: string
  s_metadata :: "json option"

record user_row =
  usr_id :: string
  usr_google_uid :: "string option"
  usr_email :: "string option"
  usr_display_name :: "string option"

record invoice_row =
  i_id :: string
  i_subscription_id :: string
  i_user_id :: string
  i_razorpay_invoice_id :: json
  i_amount :: json
  i_currency :: json
  i_status :: json
  i_payment_id :: json
  i_invoice_date :: datetime
  i_paid_at :: "datetime option"
  i_app_id :: string

record event_row =
  e_event_type :: json
  e_razorpay_entity_id :: json
  e_paypal_entity_id :: json
  e_user_id :: json
  e_data :: json
  e_processed :: bool

record usage_row =
  u_user_id :: string
  u_subscription_id :: string
  u_app_id :: string
  u_billing_period_start :: datetime
  u_billing_period_end :: datetime
  u_document_pages_count :: int
  u_perplexity_requests_count :: int

record db =
  subscription_plans :: "plan_row list"
  user_subscriptions :: "subscription_row list"
  users :: "user_row list"
  subscription_invoices :: "invoice_row list"
  subscription_events_log :: "event_row list"
  resource_usage :: "usage_row list"

subsection \<open>Binding Python values to a statement\<close>

text \<open>The driver converts \<open>None\<close>, booleans, integers and strings; a list or a dictionary
  makes \<open>execute\<close> raise.\<close>

fun bindable :: "json \<Rightarrow> bool" where
  "bindable (JArr xs) = False"
| "bindable (JObj kvs) = False"
| "bindable v = True"

definition bind_param :: "json \<Rightarrow> exn + json" where
  "bind_param v = (if bindable v then Inr v else Inl ProgrammingError)"

text \<open>The text a value becomes when it is stored in a text column.\<close>

fun to_text_column :: "json \<Rightarrow> exn + string option" where
  "to_text_column JNull = Inr None"
| "to_text_column (JStr s) = Inr (Some s)"
| "to_text_column (JInt n) = Inr (Some (dec_int n))"
| "to_text_column (JBool b) = Inr (Some (if b then ''1'' else ''0''))"
| "to_text_column v = Inl ProgrammingError"



subsection \<open>JSON_MERGE_PATCH\<close>

definition members :: "json \<Rightarrow> (string \<times> json) list" where
  "members v = (case v of JObj kvs \<Rightarrow> kvs | _ \<Rightarrow> [])"

definition member_or_null :: "(string \<times> json) list \<Rightarrow> string \<Rightarrow> json" where
  "member_or_null kvs k = (case map_of kvs k of None \<Rightarrow> JNull | Some v \<Rightarrow> v)"

text \<open>
  The engine's merge of a patch into a document: a patch that is not an object replaces
  the document; an object patch is merged member by member into the document (taken as
  the empty object when it is not one), a \<open>null\<close> member deleting the key.
\<close>

fun json_merge_patch :: "json \<Rightarrow> json \<Rightarrow> json"
  and merge_members :: "(string \<times> json) list \<Rightarrow> (string \<times> json) list \<Rightarrow> (string \<times> json) list" where
  "json_merge_patch target (JObj ps) = JObj (merge_members (members target) ps)"
| "json_merge_patch target JNull = JNull"
| "json_merge_patch target (JBool b) = JBool b"
| "json_merge_patch target (JInt n) = JInt n"
| "json_merge_patch target (JStr s) = JStr s"
| "json_merge_patch target (JArr xs) = JArr xs"
| "merge_members ms [] = ms"
| "merge_members ms (p # ps) =
     merge_members
       (if snd p = JNull then AList.delete (fst p) ms
        else AList.update (fst p) (json_merge_patch (member_or_null ms (fst p)) (snd p)) ms)
       ps"

text \<open>\<open>JSON_MERGE_PATCH(IFNULL(metadata, '{}'), patch)\<close>.\<close>

definition patch_metadata :: "json option \<Rightarrow> json \<Rightarrow> json option" where
  "patch_metadata metadata patch =
     Some (json_merge_patch (case metadata of None \<Rightarrow> JObj [] | Some m \<Rightarrow> m) patch)"

subsection \<open>db.py: log_event\<close>

text \<open>
  One row is appended to the event log. The body runs in a \<open>try\<close> that swallows every
  exception: when the driver cannot convert a parameter nothing is written and the
  caller is not told.
\<close>

definition log_event :: "json \<Rightarrow> json \<Rightarrow> json \<Rightarrow> json \<Rightarrow> string \<Rightarrow> bool \<Rightarrow> db \<Rightarrow> db" where
  "log_event event_type entity_id user_id data provider processed D =
     (let razorpay_entity_id = (if provider = ''razorpay'' then entity_id else JNull);
          paypal_entity_id = (if provider = ''razorpay'' then JNull else entity_id);
          data_ok = (case data of JObj kvs \<Rightarrow> True | _ \<Rightarrow> bindable data)
      in if bindable event_type \<and> bindable razorpay_entity_id \<and> bindable paypal_entity_id
            \<and> bindable user_id \<and> data_ok
         then D\<lparr>subscription_events_log := subscription_events_log D @
                  [\<lparr>e_event_type = event_type,
                    e_razorpay_entity_id = razorpay_entity_id,
                    e_paypal_entity_id = paypal_entity_id,
                    e_user_id = user_id,
                    e_data = data,
                    e_processed = processed\<rparr>]\<rparr>
         else D)"

subsection \<open>service.py: _create_resource_usage_record\<close>

definition create_resource_usage_record ::
  "string \<Rightarrow> string \<Rightarrow> string \<Rightarrow> datetime \<Rightarrow> datetime \<Rightarrow> db \<Rightarrow> db" where
  "create_resource_usage_record user_id subscription_id app_id period_start period_end D =
     D\<lparr>resource_usage := resource_usage D @
        [\<lparr>u_user_id = user_id,
          u_subscription_id = subscription_id,
          u_app_id = app_id,
          u_billing_period_start = period_start,
          u_billing_period_end = period_end,
          u_document_pages_count = 0,
          u_perplexity_requests_count = 0\<rparr>]\<rparr>"

section \<open>service.py: the webhook handlers\<close>


















section \<open>service.py: handle_webhook\<close>




section \<open>webhooks/razorpay_handler.py\<close>







section \<open>providers/razorpay_provider.py\<close>

text \<open>
  The Razorpay SDK client is an external collaborator: a call to it either raises or
  returns a Python value. The provider holds the client (or \<open>None\<close>) and the
  \<open>initialized\<close> flag; every operation returns its response together with the list of
  calls it made on the client.
\<close>

datatype sdk_call =
    SubscriptionCreate json
  | SubscriptionCancel string json
  | SubscriptionFetch string

type_synonym sdk = "sdk_call \<Rightarrow> exn + json"

record razorpay_provider =
  client :: "sdk option"
  initialized :: bool

text \<open>\<open>__init__\<close> and \<open>init_client\<close>: \<open>ctor\<close> stands for \<open>razorpay.Client(auth=...)\<close>.\<close>

definition init_client ::
  "string \<Rightarrow> string \<Rightarrow> (string \<Rightarrow> string \<Rightarrow> exn + sdk) \<Rightarrow> razorpay_provider \<Rightarrow> razorpay_provider" where
  "init_client key_id key_secret ctor P =
     (if key_id = [] \<or> key_secret = [] then P
      else (case ctor key_id key_secret of
              Inl e \<Rightarrow> P
            | Inr c \<Rightarrow> P\<lparr>client := Some c, initialized := True\<rparr>))"

definition RazorpayProvider ::
  "string \<Rightarrow> string \<Rightarrow> (string \<Rightarrow> string \<Rightarrow> exn + sdk) \<Rightarrow> razorpay_provider" where
  "RazorpayProvider key_id key_secret ctor =
     init_client key_id key_secret ctor \<lparr>client = None, initialized = False\<rparr>"

definition not_initialized :: json where
  "not_initialized =
     JObj [(''error'', JBool True), (''message'', JStr ''Razorpay client not initialized'')]"

definition provider_error :: "exn \<Rightarrow> json" where
  "provider_error e = JObj [(''error'', JBool True), (''message'', JStr (str_exn e))]"

definition rzp_create_subscription ::
  "razorpay_provider \<Rightarrow> string \<Rightarrow> json \<Rightarrow> string \<Rightarrow> json \<Rightarrow> json \<times> sdk_call list" where
  "rzp_create_subscription P plan_id customer_info app_id additional_notes =
     (if \<not> initialized P \<or> client P = None then (not_initialized, [])
      else
        (case py_get customer_info ''user_id'' JNull of
           Inl e \<Rightarrow> (provider_error e, [])
         | Inr user_id \<Rightarrow>
             let notes0 = [(''user_id'', user_id), (''app_id'', JStr app_id)];
                 notes = (case additional_notes of
                            JObj extra \<Rightarrow> if extra \<noteq> [] then dict_update notes0 extra else notes0
                          | _ \<Rightarrow> notes0);
                 subscription_data = JObj
                   [(''plan_id'', JStr plan_id),
                    (''customer_notify'', JBool True),
                    (''quantity'', JInt 1),
                    (''total_count'', JInt 12),
                    (''notes'', JObj notes)];
                 call = SubscriptionCreate subscription_data
             in (case bindE (the (client P) call) (\<lambda>rs.
                        bindE (py_get rs ''id'' JNull) (\<lambda>i.
                        bindE (py_get rs ''status'' JNull) (\<lambda>st.
                        bindE (py_get rs ''short_url'' JNull) (\<lambda>url.
                          Inr (JObj [(''id'', i), (''status'', st),
                                     (''short_url'', url), (''data'', rs)]))))) of
                   Inl e \<Rightarrow> (provider_error e, [call])
                 | Inr response \<Rightarrow> (response, [call]))))"

definition rzp_cancel_subscription ::
  "razorpay_provider \<Rightarrow> string \<Rightarrow> bool \<Rightarrow> json \<times> sdk_call list" where
  "rzp_cancel_subscription P subscription_id cancel_at_cycle_end =
     (if \<not> initialized P \<or> client P = None then (not_initialized, [])
      else
        let call = SubscriptionCancel subscription_id
                     (JObj [(''cancel_at_cycle_end'', JInt (if cancel_at_cycle_end then 1 else 0))])
        in (case bindE (the (client P) call) (\<lambda>rs.
                   bindE (py_get rs ''status'' JNull) (\<lambda>st.
                     Inr (JObj [(''success'', JBool True), (''status'', st), (''data'', rs)]))) of
              Inl e \<Rightarrow> (provider_error e, [call])
            | Inr response \<Rightarrow> (response, [call])))"

definition rzp_fetch_subscription ::
  "razorpay_provider \<Rightarrow> string \<Rightarrow> json \<times> sdk_call list" where
  "rzp_fetch_subscription P subscription_id =
     (if \<not> initialized P \<or> client P = None then (not_initialized, [])
      else
        let call = SubscriptionFetch subscription_id
        in (case bindE (the (client P) call) (\<lambda>rs.
                   bindE (py_get rs ''status'' JNull) (\<lambda>st.
                     Inr (JObj [(''success'', JBool True), (''status'', st), (''data'', rs)]))) of
              Inl e \<Rightarrow> (provider_error e, [call])
            | Inr response \<Rightarrow> (response, [call])))"

section \<open>providers/paypal_provider.py\<close>

record paypal_provider =
  pp_initialized :: bool

definition paypal_create_subscription :: "paypal_provider \<Rightarrow> string \<Rightarrow> json \<Rightarrow> string \<Rightarrow> json" where
  "paypal_create_subscription P plan_id customer_info app_id =
     (if \<not> pp_initialized P
      then JObj [(''error'', JBool True), (''message'', JStr ''PayPal client not initialized'')]
      else JObj [(''error'', JBool True),
                 (''message'', JStr ''PayPal integration not fully implemented'')])"

section \<open>service.py: the direct operations\<close>

text \<open>
  The payment providers as the service sees them: a call returns a Python value or
  raises. \<open>service_gateways\<close> are the providers of this repository.
\<close>

record gateways =
  razorpay_create_subscription :: "string \<Rightarrow> json \<Rightarrow> string \<Rightarrow> exn + json"
  razorpay_cancel_subscription :: "string \<Rightarrow> bool \<Rightarrow> exn + json"
  paypal_create :: "string \<Rightarrow> json \<Rightarrow> string \<Rightarrow> exn + json"

definition service_gateways :: "razorpay_provider \<Rightarrow> paypal_provider \<Rightarrow> gateways" where
  "service_gateways R P =
     \<lparr>razorpay_create_subscription =
        (\<lambda>plan_id customer_info app_id.
           Inr (fst (rzp_create_subscription R plan_id customer_info app_id JNull))),
      razorpay_cancel_subscription =
        (\<lambda>subscription_id at_end. Inr (fst (rzp_cancel_subscription R subscription_id at_end))),
      paypal_create =
        (\<lambda>plan_id customer_info app_id.
           Inr (paypal_create_subscription P plan_id customer_info app_id))\<rparr>"

definition json_of_text :: "string option \<Rightarrow> json" where
  "json_of_text t = (case t of None \<Rightarrow> JNull | Some s \<Rightarrow> JStr s)"

subsection \<open>create_subscription\<close>

text \<open>\<open>x[0]\<close> on a truthy Python value.\<close>

fun py_first :: "json \<Rightarrow> exn + json" where
  "py_first (JArr (x # xs)) = Inr x"
| "py_first (JArr []) = Inl IndexError"
| "py_first (JStr (c # cs)) = Inr (JStr [c])"
| "py_first (JStr []) = Inl IndexError"
| "py_first (JObj kvs) = Inl KeyError"
| "py_first v = Inl TypeError"

text \<open>The response of a provider to the creation of a subscription: an \<open>error\<close> member
  that is truthy makes the service raise \<open>ValueError\<close> with the response's message.\<close>

definition checked_response :: "env \<Rightarrow> string \<Rightarrow> exn + json \<Rightarrow> exn + json \<times> json" where
  "checked_response E fallback call =
     bindE call (\<lambda>response.
     bindE (py_get response ''error'' JNull) (\<lambda>err.
       if truthy err then
         bindE (py_get response ''message'' (JStr fallback)) (\<lambda>m. Inl (ValueError (py_str E m)))
       else
         bindE (py_get response ''id'' JNull) (\<lambda>gateway_sub_id. Inr (gateway_sub_id, response))))"

text \<open>The free plan: no provider is called. When the user already has an active
  subscription, \<open>current_period_start\<close> and \<open>current_period_end\<close> are never assigned, and
  reading them for the usage record raises \<open>UnboundLocalError\<close> after the commit.\<close>

definition create_free_subscription ::
  "env \<Rightarrow> plan_row \<Rightarrow> subscription_row option \<Rightarrow> string \<Rightarrow> string \<Rightarrow> string \<Rightarrow> db \<Rightarrow> db \<times> (exn + json)" where
  "create_free_subscription E plan existing_subscription user_id plan_id app_id D =
     (case existing_subscription of
        Some ex \<Rightarrow>
          ((if s_plan_id ex \<noteq> plan_id
            then D\<lparr>user_subscriptions :=
                     map (\<lambda>r. if s_id r = s_id ex
                               then r\<lparr>s_plan_id := plan_id,
                                      s_current_period_start := Some (now E),
                                      s_current_period_end :=
                                        date_add_months E (now E) (p_interval_count plan)\<rparr>
                               else r)
                         (user_subscriptions D)\<rparr>
            else D),
           Inl UnboundLocalError)
      | None \<Rightarrow>
          let subscription_id = generate_id E ''sub_'';
              current_period_start = now E
          in (case calculate_period_end current_period_start
                     (p_interval plan) (p_interval_count plan) of
                Inl e \<Rightarrow> (D, Inl e)
              | Inr current_period_end \<Rightarrow>
                  (create_resource_usage_record user_id subscription_id app_id
                     current_period_start current_period_end
                     (D\<lparr>user_subscriptions := user_subscriptions D @
                          [\<lparr>s_id = subscription_id,
                            s_user_id = user_id,
                            s_plan_id = plan_id,
                            s_razorpay_subscription_id = None,
                            s_paypal_subscription_id = None,
                            s_status = ''active'',
                            s_current_period_start = Some current_period_start,
                            s_current_period_end = Some current_period_end,
                            s_app_id = app_id,
                            s_metadata = None\<rparr>]\<rparr>),
                   Inr (JObj [(''id'', JStr subscription_id),
                              (''user_id'', JStr user_id),
                              (''plan_id'', JStr plan_id),
                              (''status'', JStr ''active''),
                              (''app_id'', JStr app_id)]))))"

text \<open>The paid plan: the first gateway of the plan is called and its answer checked;
  the values for the new row are the gateway's name, the provider's subscription ID,
  the response, the two ID columns and the checkout URL.\<close>

definition gateway_subscription ::
  "env \<Rightarrow> gateways \<Rightarrow> plan_row \<Rightarrow> user_row \<Rightarrow> string \<Rightarrow> string \<Rightarrow> string
   \<Rightarrow> exn + json \<times> json \<times> json \<times> string option \<times> string option \<times> json" where
  "gateway_subscription E G plan user user_id plan_id app_id =
     (let payment_gateways =
            (case p_payment_gateways plan of None \<Rightarrow> JArr [JStr ''razorpay''] | Some v \<Rightarrow> v);
          customer_info = JObj [(''user_id'', JStr user_id),
                                (''email'', json_of_text (usr_email user)),
                                (''name'', json_of_text (usr_display_name user))]
      in bindE (if truthy payment_gateways then py_first payment_gateways
                else Inr (JStr ''razorpay'')) (\<lambda>gateway.
         bindE (if gateway = JStr ''razorpay'' then
                  checked_response E ''Failed to create Razorpay subscription''
                    (razorpay_create_subscription G
                       (case p_razorpay_plan_id plan of
                          None \<Rightarrow> plan_id
                        | Some x \<Rightarrow> if x = [] then plan_id else x)
                       customer_info app_id)
                else if gateway = JStr ''paypal'' then
                  (case p_paypal_plan_id plan of
                     None \<Rightarrow> Inl (ValueError ''PayPal plan ID not found for this plan'')
                   | Some x \<Rightarrow>
                       if x = [] then Inl (ValueError ''PayPal plan ID not found for this plan'')
                       else checked_response E ''Failed to create PayPal subscription''
                              (paypal_create G x customer_info app_id))
                else Inl (ValueError (''Unsupported payment gateway: '' @ py_str E gateway)))
           (\<lambda>(gateway_sub_id, gateway_response).
         bindE (to_text_column (if gateway = JStr ''razorpay'' then gateway_sub_id else JNull))
           (\<lambda>razorpay_subscription_id.
         bindE (to_text_column (if gateway = JStr ''paypal'' then gateway_sub_id else JNull))
           (\<lambda>paypal_subscription_id.
         bindE (py_get gateway_response ''short_url'' JNull) (\<lambda>short_url.
           Inr (gateway, gateway_sub_id, gateway_response,
                razorpay_subscription_id, paypal_subscription_id, short_url)))))))"

text \<open>Every failure before the insertion raises and leaves the store as it was.\<close>

definition create_paid_subscription ::
  "env \<Rightarrow> gateways \<Rightarrow> plan_row \<Rightarrow> string \<Rightarrow> string \<Rightarrow> string \<Rightarrow> db \<Rightarrow> db \<times> (exn + json)" where
  "create_paid_subscription E G plan user_id plan_id app_id D =
     (case find (\<lambda>u. usr_id u = user_id \<or> usr_google_uid u = Some user_id) (users D) of
        None \<Rightarrow> (D, Inl (ValueError (''User with ID '' @ user_id @ '' not found'')))
      | Some user \<Rightarrow>
          (case gateway_subscription E G plan user user_id plan_id app_id of
             Inl e \<Rightarrow> (D, Inl e)
           | Inr (gateway, gateway_sub_id, gateway_response,
                  razorpay_subscription_id, paypal_subscription_id, short_url) \<Rightarrow>
               let subscription_id = generate_id E ''sub_''
               in (log_event (JStr ''subscription_created'') gateway_sub_id (JStr user_id)
                     gateway_response (py_str E gateway) True
                     (D\<lparr>user_subscriptions := user_subscriptions D @
                          [\<lparr>s_id = subscription_id,
                            s_user_id = user_id,
                            s_plan_id = plan_id,
                            s_razorpay_subscription_id = razorpay_subscription_id,
                            s_paypal_subscription_id = paypal_subscription_id,
                            s_status = ''created'',
                            s_current_period_start = None,
                            s_current_period_end = None,
                            s_app_id = app_id,
                            s_metadata = Some gateway_response\<rparr>]\<rparr>),
                   Inr (JObj [(''id'', JStr subscription_id),
                              (''razorpay_subscription_id'', json_of_text razorpay_subscription_id),
                              (''paypal_subscription_id'', json_of_text paypal_subscription_id),
                              (''status'', JStr ''created''),
                              (''short_url'', short_url),
                              (''user_id'', JStr user_id),
                              (''plan_id'', JStr plan_id),
                              (''app_id'', JStr app_id),
                              (''gateway'', gateway)]))))"

definition create_subscription ::
  "env \<Rightarrow> gateways \<Rightarrow> string \<Rightarrow> string \<Rightarrow> string \<Rightarrow> db \<Rightarrow> db \<times> (exn + json)" where
  "create_subscription E G user_id plan_id app_id D =
     (case find (\<lambda>sp. p_id sp = plan_id) (subscription_plans D) of
        None \<Rightarrow> (D, Inl (ValueError (''Plan with ID '' @ plan_id @ '' not found'')))
      | Some plan \<Rightarrow>
          let existing_subscription =
                find (\<lambda>r. s_user_id r = user_id \<and> s_app_id r = app_id \<and> s_status r = ''active'')
                     (user_subscriptions D)
          in if p_amount plan = 0
             then create_free_subscription E plan existing_subscription user_id plan_id app_id D
             else create_paid_subscription E G plan user_id plan_id app_id D)"

subsection \<open>activate_subscription\<close>


subsection \<open>cancel_subscription\<close>

text \<open>
  What remains of the provider's answer to the cancellation: a line in the log, an
  error line when the call raised, when its result has no \<open>get\<close> or when the result's
  \<open>error\<close> member is truthy. The subscription has no provider ID: no call, no line.
\<close>

datatype log_line = LogError | LogInfo

definition schedule_at_provider :: "gateways \<Rightarrow> subscription_row \<Rightarrow> log_line option" where
  "schedule_at_provider G subscription =
     (case s_razorpay_subscription_id subscription of
        None \<Rightarrow> None
      | Some rid \<Rightarrow>
          if rid = [] then None
          else
            (case bindE (razorpay_cancel_subscription G rid True)
                        (\<lambda>result. py_get result ''error'' JNull) of
               Inl e \<Rightarrow> Some LogError
             | Inr err \<Rightarrow> if truthy err then Some LogError else Some LogInfo))"

text \<open>The \<open>UPDATE\<close> that marks the subscription in its metadata and leaves its status.\<close>

definition schedule_cancellation ::
  "string \<Rightarrow> string \<Rightarrow> subscription_row list \<Rightarrow> subscription_row list" where
  "schedule_cancellation subscription_id current_time_str rows =
     map (\<lambda>r. if s_id r = subscription_id
               then r\<lparr>s_metadata :=
                        patch_metadata (s_metadata r)
                          (JObj [(''cancellation_scheduled'', JBool True),
                                 (''cancelled_at'', JStr current_time_str)])\<rparr>
               else r) rows"

definition cancel_subscription ::
  "env \<Rightarrow> gateways \<Rightarrow> string \<Rightarrow> string \<Rightarrow> db \<Rightarrow> db \<times> (exn + json) \<times> log_line option" where
  "cancel_subscription E G user_id subscription_id D =
     (case find (\<lambda>r. s_id r = subscription_id \<and> s_user_id r = user_id) (user_subscriptions D) of
        None \<Rightarrow> (D, Inl (ValueError ''Subscription not found or not owned by user''), None)
      | Some subscription \<Rightarrow>
          let logged = schedule_at_provider G subscription;
              current_time_str = isoformat E (now E);
              end_date_str = (case s_current_period_end subscription of
                                None \<Rightarrow> JNull
                              | Some t \<Rightarrow> JStr (isoformat E t))
          in (D\<lparr>user_subscriptions :=
                   schedule_cancellation subscription_id current_time_str
                     (user_subscriptions D)\<rparr>,
              Inr (JObj [(''id'', JStr subscription_id),
                         (''status'', JStr ''active''),
                         (''cancellation_scheduled'', JBool True),
                         (''end_date'', end_date_str),
                         (''message'', JStr ''Subscription will remain active until the end of the current billing period'')]),
              logged))"

subsection \<open>get_resource_usage\<close>

text \<open>\<open>ORDER BY key DESC LIMIT 1\<close>: the first of the rows with the greatest key, in the
  order of the table (what the engine does with equal keys is its own choice). A
  \<open>NULL\<close> key sorts below every value.\<close>

definition first_max :: "('a \<Rightarrow> 'k::linorder) \<Rightarrow> 'a list \<Rightarrow> 'a option" where
  "first_max key rows =
     (case rows of
        [] \<Rightarrow> None
      | r # rs \<Rightarrow> Some (fold (\<lambda>x best. if key best < key x then x else best) rs r))"



section \<open>Sequences of operations\<close>








section \<open>Example data\<close>

text \<open>A clock reading, an environment, the free plan that \<open>init_tables\<close> seeds, a paid
  plan billed monthly and one billed yearly, a user, and a store holding them.\<close>

definition example_env :: "string \<Rightarrow> datetime \<Rightarrow> env" where
  "example_env uid t =
     \<lparr>now = t,
      uuid4_hex = uid,
      repr = (\<lambda>v. ''?''),
      int_of_str = (\<lambda>s. None),
      fromtimestamp = (\<lambda>n. Inr (n * 1000000)),
      isoformat = (\<lambda>t. ''t''),
      date_add_months = (\<lambda>t n. Some (t + n * 30 * us_per_day)),
      text_eq_number = (\<lambda>c n. False)\<rparr>"

definition plan_free_marketfit :: plan_row where
  "plan_free_marketfit =
     \<lparr>p_id = ''plan_free_marketfit'', p_amount = 0, p_interval = ''month'',
      p_interval_count = 1, p_payment_gateways = Some (JArr [JStr ''razorpay'']),
      p_paypal_plan_id = None, p_razorpay_plan_id = None\<rparr>"

definition plan_monthly :: plan_row where
  "plan_monthly =
     \<lparr>p_id = ''plan_monthly'', p_amount = 49900, p_interval = ''month'',
      p_interval_count = 1, p_payment_gateways = Some (JArr [JStr ''razorpay'']),
      p_paypal_plan_id = None, p_razorpay_plan_id = Some ''plan_rzp_m''\<rparr>"

definition plan_yearly :: plan_row where
  "plan_yearly =
     \<lparr>p_id = ''plan_yearly'', p_amount = 499900, p_interval = ''year'',
      p_interval_count = 1, p_payment_gateways = Some (JArr [JStr ''razorpay'']),
      p_paypal_plan_id = None, p_razorpay_plan_id = Some ''plan_rzp_y''\<rparr>"

definition user_u1 :: user_row where
  "user_u1 = \<lparr>usr_id = ''u1'', usr_google_uid = None,
              usr_email = Some ''u1@example.org'', usr_display_name = Some ''U One''\<rparr>"

definition example_db :: db where
  "example_db =
     \<lparr>subscription_plans = [plan_free_marketfit, plan_monthly, plan_yearly],
      user_subscriptions = [],
      users = [user_u1],
      subscription_invoices = [],
      subscription_events_log = [],
      resource_usage = []\<rparr>"


text \<open>Providers whose every call raises, and an active paid subscription of the user.\<close>

definition failing_gateways :: gateways where
  "failing_gateways =
     \<lparr>razorpay_create_subscription = (\<lambda>plan_id customer_info app_id. Inl (ExternalError ''timeout'')),
      razorpay_cancel_subscription = (\<lambda>subscription_id at_end. Inl (ExternalError ''timeout'')),
      paypal_create = (\<lambda>plan_id customer_info app_id. Inl (ExternalError ''timeout''))\<rparr>"

definition active_paid_row :: subscription_row where
  "active_paid_row =
     \<lparr>s_id = ''sub_1'', s_user_id = ''u1'', s_plan_id = ''plan_monthly'',
      s_razorpay_subscription_id = Some ''sub_rzp_1'', s_paypal_subscription_id = None,
      s_status = ''active'', s_current_period_start = Some 1000,
      s_current_period_end = Some (1000 + 30 * us_per_day),
      s_app_id = ''marketfit'', s_metadata = None\<rparr>"







section \<open>Properties\<close>

subsection \<open>The period calculator\<close>

lemma add_days_eq:
  "is_datetime t \<Longrightarrow> 0 \<le> d \<Longrightarrow>
   add_days t d =
     (if d \<le> 999999999 \<and> t + d * us_per_day \<le> datetime_max
      then Inr (t + d * us_per_day) else Inl OverflowError)"
  by (auto simp: add_days_def timedelta_days_def datetime_add_def is_datetime_def us_per_day_def)

text \<open>
  Claim C9, as stated, fails: \<open>calculate_period_end\<close> is not total. From the last
  representable instant, one month more leaves the range of \<open>datetime\<close> and the
  addition raises \<open>OverflowError\<close>.
\<close>

theorem calculate_period_end_not_total:
  "is_datetime 315537897599999999 \<and>
   calculate_period_end 315537897599999999 ''month'' 1 = Inl OverflowError"
  by (simp add: calculate_period_end_def add_days_def timedelta_days_def datetime_add_def
      is_datetime_def us_per_day_def datetime_max_def)

text \<open>
  Claim C9, amended: for every start date and positive count, \<open>calculate_period_end\<close>
  returns the start plus \<open>30 * count\<close> days for \<open>month\<close>, plus \<open>365 * count\<close> days for
  \<open>year\<close> and plus 30 days for any other interval, whenever the number of days is at most
  999999999 and the resulting instant is representable; otherwise it raises
  \<open>OverflowError\<close>.
\<close>

theorem calculate_period_end_spec:
  assumes "is_datetime start" and "0 < count"
  shows "calculate_period_end start interval count =
     (let days = (if interval = ''month'' then 30 * count
                  else if interval = ''year'' then 365 * count else 30)
      in if days \<le> 999999999 \<and> start + days * us_per_day \<le> datetime_max
         then Inr (start + days * us_per_day) else Inl OverflowError)"
  using assms by (simp add: calculate_period_end_def add_days_eq Let_def)

theorem calculate_period_end_spec_witness:
  "is_datetime 0 \<and> (0::int) < 2 \<and>
   calculate_period_end 0 ''year'' 2 = Inr (730 * us_per_day)"
proof -
  have a: "is_datetime 0" by (simp add: is_datetime_def datetime_max_def)
  have b: "(0::int) < 2" by simp
  show ?thesis
    using a b calculate_period_end_spec [OF a b, of "''year''"]
    by (simp add: us_per_day_def datetime_max_def)
qed

subsection \<open>The Razorpay provider without credentials\<close>

lemma RazorpayProvider_no_credentials:
  "key_id = [] \<or> key_secret = [] \<Longrightarrow>
   RazorpayProvider key_id key_secret ctor = \<lparr>client = None, initialized = False\<rparr>"
  by (simp add: RazorpayProvider_def init_client_def)

text \<open>
  Claim C10: a \<open>RazorpayProvider\<close> built without a key id or without a key secret
  answers \<open>create_subscription\<close>, \<open>cancel_subscription\<close> and \<open>fetch_subscription\<close> with
  the tagged failure \<open>{error: true, message: 'Razorpay client not initialized'}\<close> and makes
  no call on the SDK client.
\<close>

theorem uninitialized_provider_fails_without_call:
  assumes "key_id = [] \<or> key_secret = []"
    and "P = RazorpayProvider key_id key_secret ctor"
  shows "rzp_create_subscription P plan_id customer_info app_id additional_notes
           = (JObj [(''error'', JBool True),
                    (''message'', JStr ''Razorpay client not initialized'')], [])
       \<and> rzp_cancel_subscription P subscription_id cancel_at_cycle_end
           = (JObj [(''error'', JBool True),
                    (''message'', JStr ''Razorpay client not initialized'')], [])
       \<and> rzp_fetch_subscription P subscription_id
           = (JObj [(''error'', JBool True),
                    (''message'', JStr ''Razorpay client not initialized'')], [])"
  using assms
  by (simp add: RazorpayProvider_no_credentials rzp_create_subscription_def
      rzp_cancel_subscription_def rzp_fetch_subscription_def not_initialized_def)

theorem uninitialized_provider_fails_without_call_witness:
  "rzp_create_subscription (RazorpayProvider [] ''secret'' (\<lambda>k s. Inr (\<lambda>c. Inr JNull)))
       ''plan_1'' (JObj [(''user_id'', JStr ''u1'')]) ''marketfit'' JNull
     = (JObj [(''error'', JBool True),
              (''message'', JStr ''Razorpay client not initialized'')], [])"
  using uninitialized_provider_fails_without_call
    [of "[]" "''secret''" _ "\<lambda>k s. Inr (\<lambda>c. Inr JNull)"]
  by simp


subsection \<open>A webhook request without a signature header\<close>




subsection \<open>An event for an unknown subscription\<close>





subsection \<open>Cancellation when the provider fails\<close>

lemma cancel_patch_sets_flag:
  "\<exists>m. patch_metadata md
          (JObj [(''cancellation_scheduled'', JBool True), (''cancelled_at'', JStr t)])
         = Some (JObj m)
       \<and> map_of m ''cancellation_scheduled'' = Some (JBool True)"
  by (simp add: patch_metadata_def AList.update_conv')

lemma schedule_cancellation_status:
  "map s_status (schedule_cancellation sid t rows) = map s_status rows"
  by (simp add: schedule_cancellation_def)

lemma schedule_cancellation_id:
  "map s_id (schedule_cancellation sid t rows) = map s_id rows"
  by (simp add: schedule_cancellation_def)

lemma schedule_cancellation_flag:
  assumes "r \<in> set (schedule_cancellation sid t rows)" and "s_id r = sid"
  shows "\<exists>m. s_metadata r = Some (JObj m)
           \<and> map_of m ''cancellation_scheduled'' = Some (JBool True)"
proof -
  from assms(1) obtain r0 where r0: "r0 \<in> set rows"
    and r: "r = (if s_id r0 = sid
                 then r0\<lparr>s_metadata := patch_metadata (s_metadata r0)
                        (JObj [(''cancellation_scheduled'', JBool True),
                               (''cancelled_at'', JStr t)])\<rparr>
                 else r0)"
    by (auto simp: schedule_cancellation_def)
  from r assms(2) have "s_id r0 = sid" by (auto split: if_splits)
  with r have "s_metadata r = patch_metadata (s_metadata r0)
                        (JObj [(''cancellation_scheduled'', JBool True),
                               (''cancelled_at'', JStr t)])"
    by simp
  then show ?thesis using cancel_patch_sets_flag [of "s_metadata r0" t] by simp
qed

text \<open>
  Claim C6: for a subscription that exists and belongs to the user,
  \<open>cancel_subscription\<close> returns, whatever the provider's cancellation does (return an
  error, raise, or succeed), the result with \<open>status = 'active'\<close> and
  \<open>cancellation_scheduled = true\<close>; it raises nothing; no row changes its status, so an
  active subscription stays active; and the metadata of the subscription holds
  \<open>cancellation_scheduled = true\<close>.
\<close>

theorem cancel_subscription_survives_provider_failure:
  assumes "find (\<lambda>r. s_id r = subscription_id \<and> s_user_id r = user_id) (user_subscriptions D)
             = Some subscription"
  shows "\<exists>D' end_date message logged.
           cancel_subscription E G user_id subscription_id D
             = (D', Inr (JObj [(''id'', JStr subscription_id),
                               (''status'', JStr ''active''),
                               (''cancellation_scheduled'', JBool True),
                               (''end_date'', end_date),
                               (''message'', message)]), logged)
         \<and> map s_status (user_subscriptions D') = map s_status (user_subscriptions D)
         \<and> map s_id (user_subscriptions D') = map s_id (user_subscriptions D)
         \<and> (\<forall>r \<in> set (user_subscriptions D'). s_id r = subscription_id \<longrightarrow>
               (\<exists>m. s_metadata r = Some (JObj m)
                  \<and> map_of m ''cancellation_scheduled'' = Some (JBool True)))"
proof -
  let ?rows = "schedule_cancellation subscription_id (isoformat E (now E)) (user_subscriptions D)"
  let ?D' = "D\<lparr>user_subscriptions := ?rows\<rparr>"
  have eq: "cancel_subscription E G user_id subscription_id D
      = (?D',
         Inr (JObj [(''id'', JStr subscription_id),
                    (''status'', JStr ''active''),
                    (''cancellation_scheduled'', JBool True),
                    (''end_date'', (case s_current_period_end subscription of
                                      None \<Rightarrow> JNull
                                    | Some t \<Rightarrow> JStr (isoformat E t))),
                    (''message'', JStr ''Subscription will remain active until the end of the current billing period'')]),
         schedule_at_provider G subscription)"
    using assms by (simp add: cancel_subscription_def Let_def)
  have flag: "\<forall>r \<in> set ?rows. s_id r = subscription_id \<longrightarrow>
               (\<exists>m. s_metadata r = Some (JObj m)
                  \<and> map_of m ''cancellation_scheduled'' = Some (JBool True))"
    using schedule_cancellation_flag by blast
  show ?thesis
  proof (intro exI conjI)
    show "cancel_subscription E G user_id subscription_id D
      = (?D',
         Inr (JObj [(''id'', JStr subscription_id),
                    (''status'', JStr ''active''),
                    (''cancellation_scheduled'', JBool True),
                    (''end_date'', (case s_current_period_end subscription of
                                      None \<Rightarrow> JNull
                                    | Some t \<Rightarrow> JStr (isoformat E t))),
                    (''message'', JStr ''Subscription will remain active until the end of the current billing period'')]),
         schedule_at_provider G subscription)"
      by (rule eq)
    show "map s_status (user_subscriptions ?D') = map s_status (user_subscriptions D)"
      by (simp add: schedule_cancellation_status)
    show "map s_id (user_subscriptions ?D') = map s_id (user_subscriptions D)"
      by (simp add: schedule_cancellation_id)
    show "\<forall>r \<in> set (user_subscriptions ?D'). s_id r = subscription_id \<longrightarrow>
               (\<exists>m. s_metadata r = Some (JObj m)
                  \<and> map_of m ''cancellation_scheduled'' = Some (JBool True))"
      using flag by simp
  qed
qed

theorem cancel_subscription_survives_provider_failure_witness:
  "find (\<lambda>r. s_id r = ''sub_1'' \<and> s_user_id r = ''u1'')
        (user_subscriptions (example_db\<lparr>user_subscriptions := [active_paid_row]\<rparr>))
     = Some active_paid_row
   \<and> schedule_at_provider failing_gateways active_paid_row = Some LogError
   \<and> (\<exists>D' end_date message logged.
         cancel_subscription (example_env ''a1'' 2000) failing_gateways ''u1'' ''sub_1''
             (example_db\<lparr>user_subscriptions := [active_paid_row]\<rparr>)
           = (D', Inr (JObj [(''id'', JStr ''sub_1''),
                             (''status'', JStr ''active''),
                             (''cancellation_scheduled'', JBool True),
                             (''end_date'', end_date),
                             (''message'', message)]), logged)
       \<and> map s_status (user_subscriptions D') = [''active''])"
proof -
  let ?D = "example_db\<lparr>user_subscriptions := [active_paid_row]\<rparr>"
  have h: "find (\<lambda>r. s_id r = ''sub_1'' \<and> s_user_id r = ''u1'') (user_subscriptions ?D)
     = Some active_paid_row"
    by (simp add: active_paid_row_def)
  have p: "schedule_at_provider failing_gateways active_paid_row = Some LogError"
    by (simp add: schedule_at_provider_def failing_gateways_def active_paid_row_def bindE_def)
  have s: "map s_status (user_subscriptions ?D) = [''active'']"
    by (simp add: active_paid_row_def)
  from cancel_subscription_survives_provider_failure
        [OF h, of "example_env ''a1'' 2000" failing_gateways]
  obtain D' end_date message logged where
    c: "cancel_subscription (example_env ''a1'' 2000) failing_gateways ''u1'' ''sub_1'' ?D
           = (D', Inr (JObj [(''id'', JStr ''sub_1''),
                             (''status'', JStr ''active''),
                             (''cancellation_scheduled'', JBool True),
                             (''end_date'', end_date),
                             (''message'', message)]), logged)"
    and m: "map s_status (user_subscriptions D') = map s_status (user_subscriptions ?D)"
    by blast
  from m s have m': "map s_status (user_subscriptions D') = [''active'']" by simp
  have ex: "\<exists>D' end_date message logged.
         cancel_subscription (example_env ''a1'' 2000) failing_gateways ''u1'' ''sub_1'' ?D
           = (D', Inr (JObj [(''id'', JStr ''sub_1''),
                             (''status'', JStr ''active''),
                             (''cancellation_scheduled'', JBool True),
                             (''end_date'', end_date),
                             (''message'', message)]), logged)
       \<and> map s_status (user_subscriptions D') = [''active'']"
    by (rule exI [of _ D'], rule exI [of _ end_date], rule exI [of _ message],
        rule exI [of _ logged], rule conjI [OF c m'])
  show ?thesis
    by (rule conjI [OF h conjI [OF p ex]])
qed

subsection \<open>Creating a free subscription twice\<close>

lemma find_append_new:
  "find P xs = None \<Longrightarrow> find P (xs @ [x]) = (if P x then Some x else None)"
  by (induction xs) (auto split: if_splits)

text \<open>
  Claim C2 says that a second \<open>create_subscription\<close> for the same user, free plan and
  application returns the subscription ID of the first. The code does not: whenever the
  first call for a free plan has returned, the second call, at any later time, finds the
  active row that the first inserted, leaves the store as it is (no second row), and
  then raises \<open>UnboundLocalError\<close>, because \<open>current_period_start\<close> is assigned only on
  the path that inserts a new row.
\<close>

theorem second_free_create_raises:
  assumes plan: "find (\<lambda>sp. p_id sp = plan_id) (subscription_plans D) = Some plan"
    and free: "p_amount plan = 0"
    and first: "create_subscription E1 G user_id plan_id app_id D = (D1, Inr r1)"
  shows "create_subscription E2 G user_id plan_id app_id D1 = (D1, Inl UnboundLocalError)"
proof -
  let ?P = "\<lambda>r. s_user_id r = user_id \<and> s_app_id r = app_id \<and> s_status r = ''active''"
  from first plan free
  have f: "create_free_subscription E1 plan (find ?P (user_subscriptions D))
             user_id plan_id app_id D = (D1, Inr r1)"
    by (simp add: create_subscription_def Let_def)
  then have none: "find ?P (user_subscriptions D) = None"
    by (cases "find ?P (user_subscriptions D)") (auto simp: create_free_subscription_def)
  from f none obtain pe where
    pe: "calculate_period_end (now E1) (p_interval plan) (p_interval_count plan) = Inr pe"
    by (cases "calculate_period_end (now E1) (p_interval plan) (p_interval_count plan)")
       (auto simp: create_free_subscription_def Let_def)
  let ?new = "\<lparr>s_id = generate_id E1 ''sub_'', s_user_id = user_id, s_plan_id = plan_id,
                s_razorpay_subscription_id = None, s_paypal_subscription_id = None,
                s_status = ''active'', s_current_period_start = Some (now E1),
                s_current_period_end = Some pe, s_app_id = app_id, s_metadata = None\<rparr>"
  from f none pe have D1: "D1 = create_resource_usage_record user_id (generate_id E1 ''sub_'')
        app_id (now E1) pe (D\<lparr>user_subscriptions := user_subscriptions D @ [?new]\<rparr>)"
    by (simp add: create_free_subscription_def Let_def)
  have plans: "subscription_plans D1 = subscription_plans D"
    by (simp add: D1 create_resource_usage_record_def)
  have subs: "user_subscriptions D1 = user_subscriptions D @ [?new]"
    by (simp add: D1 create_resource_usage_record_def)
  have ex: "find ?P (user_subscriptions D1) = Some ?new"
    by (simp add: subs find_append_new [OF none])
  show ?thesis
    using plan free ex
    by (simp add: create_subscription_def plans Let_def create_free_subscription_def)
qed

theorem second_free_create_raises_witness:
  "find (\<lambda>sp. p_id sp = ''plan_free_marketfit'') (subscription_plans example_db)
     = Some plan_free_marketfit
   \<and> p_amount plan_free_marketfit = 0
   \<and> snd (create_subscription (example_env ''a1'' 1000) failing_gateways
              ''u1'' ''plan_free_marketfit'' ''marketfit'' example_db)
       = Inr (JObj [(''id'', JStr ''sub_a1''), (''user_id'', JStr ''u1''),
                    (''plan_id'', JStr ''plan_free_marketfit''),
                    (''status'', JStr ''active''), (''app_id'', JStr ''marketfit'')])
   \<and> snd (create_subscription (example_env ''b2'' 2000) failing_gateways
              ''u1'' ''plan_free_marketfit'' ''marketfit''
              (fst (create_subscription (example_env ''a1'' 1000) failing_gateways
                      ''u1'' ''plan_free_marketfit'' ''marketfit'' example_db)))
       = Inl UnboundLocalError"
proof -
  let ?first = "create_subscription (example_env ''a1'' 1000) failing_gateways
              ''u1'' ''plan_free_marketfit'' ''marketfit'' example_db"
  have plan: "find (\<lambda>sp. p_id sp = ''plan_free_marketfit'') (subscription_plans example_db)
     = Some plan_free_marketfit"
    by (simp add: example_db_def plan_free_marketfit_def)
  have free: "p_amount plan_free_marketfit = 0"
    by (simp add: plan_free_marketfit_def)
  have r: "snd ?first
       = Inr (JObj [(''id'', JStr ''sub_a1''), (''user_id'', JStr ''u1''),
                    (''plan_id'', JStr ''plan_free_marketfit''),
                    (''status'', JStr ''active''), (''app_id'', JStr ''marketfit'')])"
    by (simp add: create_subscription_def example_db_def plan_free_marketfit_def
        create_free_subscription_def calculate_period_end_def add_days_def timedelta_days_def
        datetime_add_def is_datetime_def datetime_max_def us_per_day_def example_env_def
        generate_id_def Let_def)
  then have first: "?first = (fst ?first,
         Inr (JObj [(''id'', JStr ''sub_a1''), (''user_id'', JStr ''u1''),
                    (''plan_id'', JStr ''plan_free_marketfit''),
                    (''status'', JStr ''active''), (''app_id'', JStr ''marketfit'')]))"
    by (simp add: prod_eq_iff)
  show ?thesis
    using plan free r
      second_free_create_raises [OF plan free first, of "example_env ''b2'' 2000"]
    by simp
qed

subsection \<open>The invoice of a charge\<close>







subsection \<open>The event log of a webhook\<close>

















subsection \<open>Usage after a renewal\<close>

lemma fold_max_in_set:
  "fold (\<lambda>x best. if key best < key x then x else best) rs r \<in> set (r # rs)"
  by (induction rs arbitrary: r) auto


lemma first_max_in_set: "first_max key xs = Some r \<Longrightarrow> r \<in> set xs"
  using fold_max_in_set [of key]
  by (cases xs) (auto simp: first_max_def)







subsection \<open>At most one active subscription\<close>



















end
